theory Spec2Isabelle
  imports Complex_Main
begin

section \<open>Errors\<close>

text \<open>
  Every exception the modelled Python can raise is a value.  The string is the static
  part of the message at the raise site (interpolated object reprs are left out).
\<close>

datatype error =
    ValueError string
  | AttributeError string
  | TypeError string
  | KeyError string
  | IndexError string
  | AssertionError string
  | ZeroDivisionError string

section \<open>Keypoints, rigid bodies, linkages, chains\<close>

text \<open>
  \<^verbatim>\<open>keypoint_rigidbody_linkage_chain_abc.py\<close>.  \<^verbatim>\<open>Keypoint\<close> is a dataclass with the single
  field \<^verbatim>\<open>name\<close>; the generated \<^verbatim>\<open>__eq__\<close> compares the field tuples, which is the
  structural equality of the datatype.
\<close>

datatype Keypoint = Keypoint (name: string)

record SimpleRigidBody =
  simple_parent :: Keypoint
  simple_child :: Keypoint

record CompoundRigidBody =
  compound_parent :: Keypoint
  compound_children :: "Keypoint list"
  shared_keypoint :: Keypoint
  positive_x_direction :: Keypoint
  approximate_positive_y_direction :: "Keypoint option"
  approximate_negative_y_direction :: "Keypoint option"

text \<open>
  Python is dynamically typed: the dataclass annotations are not enforced, and two of
  the constructors below branch on \<^verbatim>\<open>isinstance\<close>.  \<open>pyobj\<close> is the universe of the
  objects those constructors can be handed.
\<close>

datatype pyobj =
    KeypointObj Keypoint
  | SimpleRigidBodyObj SimpleRigidBody
  | CompoundRigidBodyObj CompoundRigidBody
  | ListObj "pyobj list"
  | NoneObj

fun isinstance_Keypoint :: "pyobj \<Rightarrow> bool" where
  "isinstance_Keypoint (KeypointObj k) = True"
| "isinstance_Keypoint other = False"

subsection \<open>SimpleRigidBodyABC\<close>

text \<open>
  \<^verbatim>\<open>
  def __post_init__(self):
      if not all(isinstance(keypoint, Keypoint) for keypoint in [self.parent, self.child]):
          raise ValueError("Parent and child keypoints must be instances of Keypoint")
      if self.parent == self.child:
          raise ValueError("Parent and child keypoints must be different")
  \<close>
  The dataclass-generated \<^verbatim>\<open>__init__\<close> stores the fields and calls \<^verbatim>\<open>__post_init__\<close>; an
  exception there leaves the caller with no object.
\<close>

fun SimpleRigidBodyABC_post_init :: "pyobj \<Rightarrow> pyobj \<Rightarrow> error + SimpleRigidBody" where
  "SimpleRigidBodyABC_post_init p c =
     (if \<not> list_all isinstance_Keypoint [p, c]
      then Inl (ValueError ''Parent and child keypoints must be instances of Keypoint'')
      else if p = c
      then Inl (ValueError ''Parent and child keypoints must be different'')
      else (case (p, c) of
              (KeypointObj kp, KeypointObj kc) \<Rightarrow>
                 Inr \<lparr>simple_parent = kp, simple_child = kc\<rparr>
            | other \<Rightarrow> Inl (ValueError ''Parent and child keypoints must be instances of Keypoint'')))"

subsection \<open>CompoundRigidBodyABC\<close>

text \<open>
  \<^verbatim>\<open>if self.approximate_positive_y_direction and ...\<close> tests the truth value of an
  \<^verbatim>\<open>Optional[Keypoint]\<close>: \<^verbatim>\<open>None\<close> is false, a \<^verbatim>\<open>Keypoint\<close> instance (a dataclass
  with neither \<^verbatim>\<open>__bool__\<close> nor \<^verbatim>\<open>__len__\<close>) is true.
\<close>

fun truthy :: "Keypoint option \<Rightarrow> bool" where
  "truthy None = False"
| "truthy (Some k) = True"

fun CompoundRigidBodyABC_post_init ::
  "Keypoint \<Rightarrow> Keypoint list \<Rightarrow> Keypoint \<Rightarrow> Keypoint \<Rightarrow> Keypoint option \<Rightarrow> Keypoint option
     \<Rightarrow> error + CompoundRigidBody" where
  "CompoundRigidBodyABC_post_init p cs sk px py ny =
     (if \<not> list_ex (\<lambda>child. child = sk) cs
      then Inl (ValueError ''Shared keypoint not found in children'')
      else if \<not> list_ex (\<lambda>child. child = px) cs
      then Inl (ValueError ''Positive X direction not found in children'')
      else if truthy py \<and> \<not> list_ex (\<lambda>child. Some child = py) cs
      then Inl (ValueError ''Approximate Positive Y direction not found in children'')
      else if truthy ny \<and> \<not> list_ex (\<lambda>child. Some child = ny) cs
      then Inl (ValueError ''Approximate Negative Y direction not found in children'')
      else if \<not> truthy py \<and> \<not> truthy ny
      then Inl (ValueError
        ''At least one of approximate_positive_y_direction or approximate_negative_y_direction must be defined'')
      else Inr \<lparr>compound_parent = p, compound_children = cs, shared_keypoint = sk,
                positive_x_direction = px, approximate_positive_y_direction = py,
                approximate_negative_y_direction = ny\<rparr>)"

subsection \<open>LinkageABC\<close>

text \<open>
  \<^verbatim>\<open>
  parent: RigidBodyABC
  children: [RigidBodyABC]
  linked_keypoints: [Keypoint]

  def __post_init__(self):
      for body in [self.parent, self.children]:
          for keypoint in self.linked_keypoints:
              if isinstance(body, SimpleRigidBodyABC):
                  if keypoint not in [body.parent, body.child]:
                      raise ValueError(f"Common keypoint {keypoint.name} not found in body {body}")
              elif isinstance(body, CompoundRigidBodyABC):
                  if keypoint not in [body.parent] + body.children:
                      raise ValueError(f"Common keypoint {keypoint.name} not found in body {body}")
              else:
                  raise ValueError(f"Body {body} is not a valid rigid body type")
  \<close>
  The outer loop runs over two objects: the parent body and the value of the field
  \<^verbatim>\<open>children\<close> itself (not over its elements).
\<close>

record Linkage =
  linkage_parent :: pyobj
  linkage_children :: pyobj
  linked_keypoints :: "Keypoint list"

text \<open>A \<^verbatim>\<open>for\<close> loop whose body may raise: the first exception ends the loop.\<close>

fun for_each :: "('a \<Rightarrow> error + unit) \<Rightarrow> 'a list \<Rightarrow> error + unit" where
  "for_each f [] = Inr ()"
| "for_each f (x # xs) = (case f x of Inl e \<Rightarrow> Inl e | Inr u \<Rightarrow> for_each f xs)"

fun check_linked_keypoint :: "pyobj \<Rightarrow> Keypoint \<Rightarrow> error + unit" where
  "check_linked_keypoint (SimpleRigidBodyObj body) keypoint =
     (if \<not> List.member [simple_parent body, simple_child body] keypoint
      then Inl (ValueError ''Common keypoint not found in body'') else Inr ())"
| "check_linked_keypoint (CompoundRigidBodyObj body) keypoint =
     (if \<not> List.member ([compound_parent body] @ compound_children body) keypoint
      then Inl (ValueError ''Common keypoint not found in body'') else Inr ())"
| "check_linked_keypoint body keypoint = Inl (ValueError ''Body is not a valid rigid body type'')"

definition LinkageABC_post_init :: "pyobj \<Rightarrow> pyobj \<Rightarrow> Keypoint list \<Rightarrow> error + Linkage" where
  "LinkageABC_post_init p cs lks =
     (case for_each (\<lambda>body. for_each (check_linked_keypoint body) lks) [p, cs] of
        Inl e \<Rightarrow> Inl e
      | Inr u \<Rightarrow> Inr \<lparr>linkage_parent = p, linkage_children = cs, linked_keypoints = lks\<rparr>)"

text \<open>Structural membership of a keypoint in a rigid body, as the claim words it.\<close>

fun structural_member :: "Keypoint \<Rightarrow> pyobj \<Rightarrow> bool" where
  "structural_member k (SimpleRigidBodyObj body) = (k = simple_parent body \<or> k = simple_child body)"
| "structural_member k (CompoundRigidBodyObj body) =
     (k = compound_parent body \<or> k \<in> set (compound_children body))"
| "structural_member k other = False"

fun is_rigid_body :: "pyobj \<Rightarrow> bool" where
  "is_rigid_body (SimpleRigidBodyObj body) = True"
| "is_rigid_body (CompoundRigidBodyObj body) = True"
| "is_rigid_body other = False"

subsection \<open>ChainABC\<close>

text \<open>
  \<^verbatim>\<open>
  class ChainABC(ABC):
      parent: LinkageABC
      children: List[LinkageABC]
      shared_bodies: List[RigidBodyABC]

      def __post_init__(self):
          for body in self.shared_bodies:
              if not any(body == linkage.parent for linkage in self.children):
                  raise ValueError(f"Shared body {body.name} not found in children {self.children}")
  \<close>
\<close>

record Chain =
  chain_parent :: Linkage
  chain_children :: "Linkage list"
  shared_bodies :: "pyobj list"

definition ChainABC_post_init :: "Chain \<Rightarrow> error + unit" where
  "ChainABC_post_init self =
     for_each (\<lambda>body.
        if \<not> list_ex (\<lambda>linkage. body = linkage_parent linkage) (chain_children self)
        then Inl (ValueError ''Shared body not found in children'') else Inr ())
       (shared_bodies self)"

text \<open>
  Unlike \<^verbatim>\<open>Keypoint\<close>, the rigid bodies and \<^verbatim>\<open>LinkageABC\<close>, the class statement of
  \<^verbatim>\<open>ChainABC\<close> carries no \<^verbatim>\<open>@dataclass\<close> decorator.  Its three fields are bare
  annotations, no \<^verbatim>\<open>__init__\<close> is generated, and \<^verbatim>\<open>__post_init__\<close> is an ordinary method
  that instantiation never calls.  Instantiation goes through \<^verbatim>\<open>object.__init__\<close>, which
  raises \<^verbatim>\<open>TypeError\<close> on any argument; the attributes of the instance are the class
  attributes of the (sub)class, the way \<^verbatim>\<open>full_body_skeleton.py\<close> declares them.
  \<open>dataclass_construct\<close> is what the decorator would have generated.
\<close>

definition ChainABC_construct :: "Chain \<Rightarrow> pyobj list \<Rightarrow> error + Chain" where
  "ChainABC_construct class_attributes args =
     (if args \<noteq> [] then Inl (TypeError ''ChainABC() takes no arguments'')
      else Inr class_attributes)"

definition dataclass_construct :: "('a \<Rightarrow> error + unit) \<Rightarrow> 'a \<Rightarrow> error + 'a" where
  "dataclass_construct post_init self =
     (case post_init self of Inl e \<Rightarrow> Inl e | Inr u \<Rightarrow> Inr self)"

section \<open>Keypoint mapping\<close>

text \<open>
  \<^verbatim>\<open>
  @dataclass
  class KeypointMapping(TypeSafeDataclass):
      mapping: Mapping  # map to local offset from parent keypoint
      weights: Optional[List[float]] = None

      def __post_init__(self):
          if isinstance(self.source_keypoints, dict):
              self.source_keypoints = list(self.source_keypoints.keys())
              self.weights = list(self.source_keypoints.values())
          if self.weights is None:
              self.weights = [1 / len(self.source_keypoints)] * len(self.source_keypoints)
          if len(self.source_keypoints) != len(self.weights):
              raise ValueError("The number of parent keypoints must match the number of weights")
          if np.sum(self.weights) != 1:
              raise ValueError("The sum of the weights must be 1")
  \<close>
  The values a mapping can hold, and an instance as its attribute dictionary: the
  hook reads and writes attributes by name, and which names exist decides what it does.
  \<^verbatim>\<open>np.sum\<close> adds float64 numbers and rounds; \<open>np_sum\<close> below adds reals.  No
  theorem of this file rests on the value of a sum: the hook fails before it reads
  a weight.
\<close>

datatype pyval =
    NoneVal
  | StrVal string
  | FloatVal real
  | KeypointVal Keypoint
  | TupleVal "pyval list"
  | ListVal "pyval list"
  | DictVal "(pyval \<times> pyval) list"

type_synonym pyinstance = "(string \<times> pyval) list"

definition getattr :: "pyinstance \<Rightarrow> string \<Rightarrow> error + pyval" where
  "getattr self attr = (case map_of self attr of None \<Rightarrow> Inl (AttributeError attr) | Some v \<Rightarrow> Inr v)"

definition setattr :: "pyinstance \<Rightarrow> string \<Rightarrow> pyval \<Rightarrow> pyinstance" where
  "setattr self attr v = (attr, v) # filter (\<lambda>(a, w). a \<noteq> attr) self"

text \<open>Sequencing of statements that may raise.\<close>

fun and_then :: "error + 'a \<Rightarrow> ('a \<Rightarrow> error + 'b) \<Rightarrow> error + 'b" where
  "and_then (Inl e) f = Inl e"
| "and_then (Inr x) f = f x"

fun isinstance_dict :: "pyval \<Rightarrow> bool" where
  "isinstance_dict (DictVal d) = True"
| "isinstance_dict other = False"

fun dict_keys :: "pyval \<Rightarrow> error + pyval list" where
  "dict_keys (DictVal d) = Inr (map fst d)"
| "dict_keys other = Inl (AttributeError ''keys'')"

fun dict_values :: "pyval \<Rightarrow> error + pyval list" where
  "dict_values (DictVal d) = Inr (map snd d)"
| "dict_values other = Inl (AttributeError ''values'')"

fun len :: "pyval \<Rightarrow> error + nat" where
  "len (StrVal s) = Inr (length s)"
| "len (TupleVal xs) = Inr (length xs)"
| "len (ListVal xs) = Inr (length xs)"
| "len (DictVal d) = Inr (length d)"
| "len other = Inl (TypeError ''object has no len()'')"

fun np_sum_list :: "pyval list \<Rightarrow> error + real" where
  "np_sum_list [] = Inr 0"
| "np_sum_list (FloatVal x # xs) = and_then (np_sum_list xs) (\<lambda>s. Inr (x + s))"
| "np_sum_list (other # xs) = Inl (TypeError ''unsupported operand type(s) for +'')"

fun np_sum :: "pyval \<Rightarrow> error + real" where
  "np_sum (ListVal xs) = np_sum_list xs"
| "np_sum (TupleVal xs) = np_sum_list xs"
| "np_sum (FloatVal x) = Inr x"
| "np_sum other = Inl (TypeError ''unsupported operand type(s) for +'')"

definition split_dict_mapping :: "pyinstance \<Rightarrow> error + pyinstance" where
  \<comment> \<open>the \<^verbatim>\<open>isinstance(self.source_keypoints, dict)\<close> block\<close>
  "split_dict_mapping self =
     and_then (getattr self ''source_keypoints'') (\<lambda>sk.
       if isinstance_dict sk then
         and_then (dict_keys sk) (\<lambda>ks.
           let self1 = setattr self ''source_keypoints'' (ListVal ks) in
           and_then (getattr self1 ''source_keypoints'') (\<lambda>sk1.
             and_then (dict_values sk1) (\<lambda>vs.
               Inr (setattr self1 ''weights'' (ListVal vs)))))
       else Inr self)"

definition default_weights :: "pyinstance \<Rightarrow> error + pyinstance" where
  \<comment> \<open>the \<^verbatim>\<open>self.weights is None\<close> block\<close>
  "default_weights self =
     and_then (getattr self ''weights'') (\<lambda>w.
       if w = NoneVal then
         and_then (getattr self ''source_keypoints'') (\<lambda>sk.
           and_then (len sk) (\<lambda>n.
             if n = 0 then Inl (ZeroDivisionError ''division by zero'')
             else Inr (setattr self ''weights'' (ListVal (replicate n (FloatVal (1 / real n)))))))
       else Inr self)"

definition check_weights :: "pyinstance \<Rightarrow> error + pyinstance" where
  \<comment> \<open>the two \<^verbatim>\<open>raise ValueError\<close> statements\<close>
  "check_weights self =
     and_then (getattr self ''source_keypoints'') (\<lambda>sk.
       and_then (len sk) (\<lambda>n.
         and_then (getattr self ''weights'') (\<lambda>w.
           and_then (len w) (\<lambda>m.
             if n \<noteq> m
             then Inl (ValueError ''The number of parent keypoints must match the number of weights'')
             else and_then (np_sum w) (\<lambda>total.
               if total \<noteq> 1 then Inl (ValueError ''The sum of the weights must be 1'')
               else Inr self)))))"

definition KeypointMapping_post_init :: "pyinstance \<Rightarrow> error + pyinstance" where
  "KeypointMapping_post_init self =
     and_then (split_dict_mapping self) (\<lambda>self1.
       and_then (default_weights self1) check_weights)"

text \<open>
  The generated \<^verbatim>\<open>__init__(self, mapping, weights=None)\<close> stores the two declared
  fields, then runs the hook.
\<close>

definition KeypointMapping :: "pyval \<Rightarrow> pyval \<Rightarrow> error + pyinstance" where
  "KeypointMapping mapping weights =
     KeypointMapping_post_init [(''mapping'', mapping), (''weights'', weights)]"

section \<open>Numbers, vectors and arrays\<close>

text \<open>
  \<^verbatim>\<open>put_skeleton_on_ground.py\<close> computes with numpy's float64.  The operations below
  stand in for that arithmetic: a value is a real number or NaN (\<open>None\<close>), NaN is
  absorbing, and an operation on numbers returns the exact result.  float64 rounds,
  overflows to an infinity and underflows to zero; none of that is modelled, so the
  numbers this model computes are those of the source only where float64 is exact.
  The theorems of this file about \<^verbatim>\<open>estimate_orthonormal_basis\<close> and
  \<^verbatim>\<open>put_skeleton_on_ground\<close> are about shapes, exceptions and the object store, and
  their proofs never look inside an arithmetic operation; nothing is claimed about
  the numerical value of a basis or of a transformed point.
\<close>

type_synonym fl = "real option"

fun fneg :: "fl \<Rightarrow> fl" where
  "fneg (Some x) = Some (- x)"
| "fneg None = None"

fun fadd :: "fl \<Rightarrow> fl \<Rightarrow> fl" where
  "fadd (Some x) (Some y) = Some (x + y)"
| "fadd a b = None"

fun fsub :: "fl \<Rightarrow> fl \<Rightarrow> fl" where
  "fsub (Some x) (Some y) = Some (x - y)"
| "fsub a b = None"

fun fmul :: "fl \<Rightarrow> fl \<Rightarrow> fl" where
  "fmul (Some x) (Some y) = Some (x * y)"
| "fmul a b = None"

text \<open>
  numpy does not raise on a division by zero: \<^verbatim>\<open>0 / 0\<close> is NaN.  A non-zero number
  over zero is an infinity in float64, which the model does not have; it gives NaN
  there as well.
\<close>

fun fdiv :: "fl \<Rightarrow> fl \<Rightarrow> fl" where
  "fdiv (Some x) (Some y) = (if y = 0 then None else Some (x / y))"
| "fdiv a b = None"

fun fsqrt :: "fl \<Rightarrow> fl" where
  "fsqrt (Some x) = (if x < 0 then None else Some (sqrt x))"
| "fsqrt None = None"

text \<open>An array of shape \<^verbatim>\<open>(3,)\<close>, and the rows of a 3 by 3 matrix.\<close>

type_synonym vec3 = "fl \<times> fl \<times> fl"
type_synonym mat3 = "vec3 \<times> vec3 \<times> vec3"

fun vneg :: "vec3 \<Rightarrow> vec3" where
  "vneg (a1, a2, a3) = (fneg a1, fneg a2, fneg a3)"

fun vadd :: "vec3 \<Rightarrow> vec3 \<Rightarrow> vec3" where
  "vadd (a1, a2, a3) (b1, b2, b3) = (fadd a1 b1, fadd a2 b2, fadd a3 b3)"

fun vsub :: "vec3 \<Rightarrow> vec3 \<Rightarrow> vec3" where
  "vsub (a1, a2, a3) (b1, b2, b3) = (fsub a1 b1, fsub a2 b2, fsub a3 b3)"

fun vdiv :: "vec3 \<Rightarrow> fl \<Rightarrow> vec3" where
  "vdiv (a1, a2, a3) s = (fdiv a1 s, fdiv a2 s, fdiv a3 s)"

fun np_cross :: "vec3 \<Rightarrow> vec3 \<Rightarrow> vec3" where
  "np_cross (a1, a2, a3) (b1, b2, b3) =
     (fsub (fmul a2 b3) (fmul a3 b2),
      fsub (fmul a3 b1) (fmul a1 b3),
      fsub (fmul a1 b2) (fmul a2 b1))"

fun np_dot :: "vec3 \<Rightarrow> vec3 \<Rightarrow> fl" where
  "np_dot (a1, a2, a3) (b1, b2, b3) = fadd (fadd (fmul a1 b1) (fmul a2 b2)) (fmul a3 b3)"

definition np_linalg_norm :: "vec3 \<Rightarrow> fl" where
  "np_linalg_norm v = fsqrt (np_dot v v)"

fun matvec :: "mat3 \<Rightarrow> vec3 \<Rightarrow> vec3" where
  \<comment> \<open>\<^verbatim>\<open>rotation_matrix @ v\<close>\<close>
  "matvec (r1, r2, r3) v = (np_dot r1 v, np_dot r2 v, np_dot r3 v)"

fun np_linalg_det :: "mat3 \<Rightarrow> fl" where
  "np_linalg_det ((a11, a12, a13), (a21, a22, a23), (a31, a32, a33)) =
     fadd (fsub (fmul a11 (fsub (fmul a22 a33) (fmul a23 a32)))
                (fmul a12 (fsub (fmul a21 a33) (fmul a23 a31))))
          (fmul a13 (fsub (fmul a21 a32) (fmul a22 a31)))"

text \<open>
  \<^verbatim>\<open>np.allclose(a, b, atol=1e-6)\<close> keeps numpy's default relative tolerance
  \<^verbatim>\<open>rtol=1e-5\<close>: it tests \<^verbatim>\<open>|a - b| <= atol + rtol * |b|\<close> elementwise, and a NaN on
  either side makes it false.
\<close>

definition atol :: real where "atol = 1 / 10 ^ 6"
definition rtol :: real where "rtol = 1 / 10 ^ 5"

fun isclose :: "fl \<Rightarrow> fl \<Rightarrow> bool" where
  "isclose (Some a) (Some b) = (\<bar>a - b\<bar> \<le> atol + rtol * \<bar>b\<bar>)"
| "isclose a b = False"

fun np_allclose :: "vec3 \<Rightarrow> vec3 \<Rightarrow> bool" where
  "np_allclose (a1, a2, a3) (b1, b2, b3) = (isclose a1 b1 \<and> isclose a2 b2 \<and> isclose a3 b3)"

text \<open>
  \<^verbatim>\<open>np.nanmean(points, axis=0)\<close>: per coordinate, the mean of the entries that are not
  NaN; NaN when there is none.
\<close>

definition nanmean :: "fl list \<Rightarrow> fl" where
  "nanmean xs =
     (let present = map the (filter (\<lambda>x. x \<noteq> None) xs)
      in if present = [] then None else Some (sum_list present / real (length present)))"

definition np_nanmean :: "vec3 list \<Rightarrow> vec3" where
  "np_nanmean points =
     (nanmean (map fst points), nanmean (map (\<lambda>p. fst (snd p)) points),
      nanmean (map (\<lambda>p. snd (snd p)) points))"

text \<open>
  A general array, for the one function that inspects the shape of its arguments:
  the shape and the elements in row-major order.
\<close>

datatype ndarray = NDArray (shape: "nat list") (elems: "fl list")

fun vector :: "vec3 \<Rightarrow> ndarray" where
  "vector (a1, a2, a3) = NDArray [3] [a1, a2, a3]"

definition components :: "ndarray \<Rightarrow> vec3" where
  \<comment> \<open>the three entries of an array of shape \<^verbatim>\<open>(3,)\<close>\<close>
  "components a = (case elems a of [a1, a2, a3] \<Rightarrow> (a1, a2, a3) | other \<Rightarrow> (None, None, None))"

section \<open>The ground frame\<close>

subsection \<open>estimate\_orthonormal\_basis\<close>

text \<open>
  \<^verbatim>\<open>
  if center_reference_point.shape != (3,) or x_forward_reference_point.shape != (3,) or \
          y_leftward_reference_point.shape != (3,) or z_upward_reference_point.shape != (3,):
      raise ValueError("All reference points must be 3D vectors.")

  x_forward = x_forward_reference_point - center_reference_point
  y_left = y_leftward_reference_point - center_reference_point
  z_up = z_upward_reference_point - center_reference_point

  # Make them orthogonal
  z_hat = np.cross(x_forward, y_left)
  y_hat = np.cross(z_hat, x_forward)
  x_hat = np.cross(y_hat, z_hat)

  # Normalize them
  x_hat = x_hat / np.linalg.norm(x_hat)
  y_hat = y_hat / np.linalg.norm(y_hat)
  z_hat = z_hat / np.linalg.norm(z_hat)

  return x_hat, y_hat, z_hat
  \<close>
  \<^verbatim>\<open>z_up\<close> is computed and never used.
\<close>

definition orthogonalize :: "vec3 \<Rightarrow> vec3 \<Rightarrow> mat3" where
  \<comment> \<open>the three cross products, in the order of the source\<close>
  "orthogonalize x_forward y_left =
     (let z_hat = np_cross x_forward y_left;
          y_hat = np_cross z_hat x_forward;
          x_hat = np_cross y_hat z_hat
      in (x_hat, y_hat, z_hat))"

fun normalize :: "mat3 \<Rightarrow> mat3" where
  "normalize (x_hat, y_hat, z_hat) =
     (vdiv x_hat (np_linalg_norm x_hat),
      vdiv y_hat (np_linalg_norm y_hat),
      vdiv z_hat (np_linalg_norm z_hat))"

definition estimate_orthonormal_basis ::
  "ndarray \<Rightarrow> ndarray \<Rightarrow> ndarray \<Rightarrow> ndarray \<Rightarrow> error + mat3" where
  "estimate_orthonormal_basis center_reference_point x_forward_reference_point
       y_leftward_reference_point z_upward_reference_point =
     (if shape center_reference_point \<noteq> [3] \<or> shape x_forward_reference_point \<noteq> [3]
         \<or> shape y_leftward_reference_point \<noteq> [3] \<or> shape z_upward_reference_point \<noteq> [3]
      then Inl (ValueError ''All reference points must be 3D vectors.'')
      else
        let x_forward = vsub (components x_forward_reference_point) (components center_reference_point);
            y_left = vsub (components y_leftward_reference_point) (components center_reference_point);
            z_up = vsub (components z_upward_reference_point) (components center_reference_point)
        in Inr (normalize (orthogonalize x_forward y_left)))"

subsection \<open>The assertions of put\_skeleton\_on\_ground\<close>

text \<open>
  The thirteen \<^verbatim>\<open>assert\<close> statements, in order, each with its message; the first
  one that is false raises.
\<close>

definition basis_assertions :: "mat3 \<Rightarrow> (bool \<times> string) list" where
  "basis_assertions rotation_matrix =
     (case rotation_matrix of (x_hat, y_hat, z_hat) \<Rightarrow>
      [(isclose (np_linalg_norm x_hat) (Some 1), ''x_hat is not normalized''),
       (isclose (np_linalg_norm y_hat) (Some 1), ''y_hat is not normalized''),
       (isclose (np_linalg_norm z_hat) (Some 1), ''z_hat is not normalized''),
       (isclose (np_dot z_hat y_hat) (Some 0), ''z_hat is not orthogonal to y_hat''),
       (isclose (np_dot z_hat x_hat) (Some 0), ''z_hat is not orthogonal to x_hat''),
       (isclose (np_dot y_hat x_hat) (Some 0), ''y_hat is not orthogonal to x_hat''),
       (np_allclose (np_cross x_hat y_hat) z_hat, ''Vectors do not follow right-hand rule''),
       (np_allclose (np_cross y_hat z_hat) x_hat, ''Vectors do not follow right-hand rule''),
       (np_allclose (np_cross z_hat x_hat) y_hat, ''Vectors do not follow right-hand rule''),
       (np_allclose (matvec rotation_matrix x_hat) (Some 1, Some 0, Some 0),
          ''x_hat is not rotated to [1, 0, 0]''),
       (np_allclose (matvec rotation_matrix y_hat) (Some 0, Some 1, Some 0),
          ''y_hat is not rotated to [0, 1, 0]''),
       (np_allclose (matvec rotation_matrix z_hat) (Some 0, Some 0, Some 1),
          ''z_hat is not rotated to [0, 0, 1]''),
       (isclose (np_linalg_det rotation_matrix) (Some 1),
          ''rotation matrix is not a rotation matrix'')])"

fun run_assertions :: "(bool \<times> string) list \<Rightarrow> error + unit" where
  "run_assertions [] = Inr ()"
| "run_assertions ((ok, msg) # rest) =
     (if ok then run_assertions rest else Inl (AssertionError msg))"

subsection \<open>transform\_points\<close>

text \<open>
  \<^verbatim>\<open>
  def transform_points(points, translation_vector, rotation_matrix):
      translated_points = translate_points(points=points, translation_vector=translation_vector)
      rotated_points = rotate_points(points=translated_points, rotation_matrix=rotation_matrix)
      return rotated_points

  def translate_points(points, translation_vector):
      return points + translation_vector

  def rotate_points(points, rotation_matrix):
      return points @ rotation_matrix.T
  \<close>
  \<^verbatim>\<open>points\<close> is a frames by 3 array, a list of rows.  The sum broadcasts the vector
  over the rows; entry \<open>j\<close> of a row of the product is the dot product of the row with
  row \<open>j\<close> of \<^verbatim>\<open>rotation_matrix\<close>.  Both return new arrays.
\<close>

definition translate_points :: "vec3 list \<Rightarrow> vec3 \<Rightarrow> vec3 list" where
  "translate_points points translation_vector = map (\<lambda>p. vadd p translation_vector) points"

fun rotate_point :: "mat3 \<Rightarrow> vec3 \<Rightarrow> vec3" where
  "rotate_point (r1, r2, r3) p = (np_dot p r1, np_dot p r2, np_dot p r3)"

definition rotate_points :: "vec3 list \<Rightarrow> mat3 \<Rightarrow> vec3 list" where
  "rotate_points points rotation_matrix = map (rotate_point rotation_matrix) points"

definition transform_points :: "vec3 list \<Rightarrow> vec3 \<Rightarrow> mat3 \<Rightarrow> vec3 list" where
  "transform_points points translation_vector rotation_matrix =
     (let translated_points = translate_points points translation_vector;
          rotated_points = rotate_points translated_points rotation_matrix
      in rotated_points)"

subsection \<open>Triples of numbers\<close>

text \<open>A vector none of whose entries is NaN, written as a triple of numbers.\<close>

type_synonym rvec = "real \<times> real \<times> real"

fun fin :: "rvec \<Rightarrow> vec3" where
  "fin (a1, a2, a3) = (Some a1, Some a2, Some a3)"

subsection \<open>Trajectories and the object store\<close>

text \<open>
  Modelled from the spec: \<^verbatim>\<open>Trajectory\<close> (\<^verbatim>\<open>trajectory_abc.py\<close> is not among the sources).
  A trajectory has a \<^verbatim>\<open>name\<close> and a \<^verbatim>\<open>trajectory_data\<close> array of shape frames by 3.

  Trajectories are mutable objects and a \<^verbatim>\<open>KeypointTrajectories\<close> dictionary holds
  references to them, so the store is explicit: an address is an index into the list
  of allocated objects, allocation appends, and a dictionary is the list of its
  (key, address) items in insertion order.
\<close>

record Trajectory =
  trajectory_name :: string
  trajectory_data :: "vec3 list"

type_synonym heap = "Trajectory list"
type_synonym KeypointTrajectories = "(string \<times> nat) list"

definition dict_get :: "(string \<times> 'a) list \<Rightarrow> string \<Rightarrow> error + 'a" where
  \<comment> \<open>\<^verbatim>\<open>d[key]\<close>\<close>
  "dict_get d key = (case map_of d key of None \<Rightarrow> Inl (KeyError key) | Some v \<Rightarrow> Inr v)"

definition frame_at :: "vec3 list \<Rightarrow> int \<Rightarrow> error + vec3" where
  \<comment> \<open>\<^verbatim>\<open>trajectory_data[good_frame, :]\<close>; a negative index counts from the end\<close>
  "frame_at points i =
     (let n = int (length points); j = (if i < 0 then n + i else i)
      in if 0 \<le> j \<and> j < n then Inr (points ! nat j)
         else Inl (IndexError ''index is out of bounds for axis 0''))"

text \<open>
  \<^verbatim>\<open>deepcopy\<close> of a dictionary of objects: a new object for every object reached, one
  per original (the memo keeps two keys that share an object sharing its copy).
\<close>

fun deepcopy_items ::
  "(string \<times> nat) list \<Rightarrow> (nat \<times> nat) list \<Rightarrow> heap
     \<Rightarrow> (string \<times> nat) list \<times> (nat \<times> nat) list \<times> heap" where
  "deepcopy_items [] memo h = ([], memo, h)"
| "deepcopy_items ((key, a) # items) memo h =
     (case map_of memo a of
        Some a' \<Rightarrow>
          (case deepcopy_items items memo h of
             (items', memo', h') \<Rightarrow> ((key, a') # items', memo', h'))
      | None \<Rightarrow>
          (case deepcopy_items items ((a, length h) # memo) (h @ [h ! a]) of
             (items', memo', h') \<Rightarrow> ((key, length h) # items', memo', h')))"

definition deepcopy :: "KeypointTrajectories \<Rightarrow> heap \<Rightarrow> KeypointTrajectories \<times> heap" where
  "deepcopy d h = (case deepcopy_items d [] h of (d', memo, h') \<Rightarrow> (d', h'))"

subsection \<open>put\_skeleton\_on\_ground\<close>

text \<open>
  The keys are \<^verbatim>\<open>BodyKeypoints.RIGHT_HEEL.name.lower()\<close> and so on; the enumeration
  \<^verbatim>\<open>BodyKeypoints\<close> is not among the sources, its member names are.
\<close>

definition right_heel :: string where "right_heel = ''right_heel''"
definition left_heel :: string where "left_heel = ''left_heel''"
definition right_hallux_tip :: string where "right_hallux_tip = ''right_hallux_tip''"
definition left_hallux_tip :: string where "left_hallux_tip = ''left_hallux_tip''"
definition skull_origin_foramen_magnum :: string where
  "skull_origin_foramen_magnum = ''skull_origin_foramen_magnum''"

text \<open>
  \<^verbatim>\<open>
  ground_reference_trajectories = {key: keypoint_trajectories[key] for key in
                                   [right_heel, left_heel, right_hallux_tip, left_hallux_tip]}
  good_frame = get_low_velocity_frame(trajectories=ground_reference_trajectories)
  original_reference_locations = {trajectory_name: trajectory.trajectory_data[good_frame, :]
                                  for trajectory_name, trajectory in
                                  ground_reference_trajectories.items()}
  center_reference_point = np.nanmean(list(original_reference_locations.values()), axis=0)
  x_forward_reference_point = np.nanmean([original_reference_locations[right_hallux_tip],
                                          original_reference_locations[left_hallux_tip]], axis=0)
  y_leftward_reference_point = np.nanmean([original_reference_locations[left_hallux_tip],
                                           original_reference_locations[left_heel]], axis=0)
  z_upward_reference_point = keypoint_trajectories[skull_origin_foramen_magnum].trajectory_data[
                             good_frame, :]
  \<close>
  \<^verbatim>\<open>get_low_velocity_frame\<close> is not among the sources: the frame it returns is the
  parameter \<open>good_frame\<close>.
\<close>

definition original_reference_locations ::
  "int \<Rightarrow> KeypointTrajectories \<Rightarrow> heap \<Rightarrow> error + (vec3 \<times> vec3 \<times> vec3 \<times> vec3)" where
  \<comment> \<open>the values of the dictionary, in its order: right heel, left heel, right and left hallux tip\<close>
  "original_reference_locations good_frame keypoint_trajectories h =
     and_then (dict_get keypoint_trajectories right_heel) (\<lambda>rh.
     and_then (dict_get keypoint_trajectories left_heel) (\<lambda>lh.
     and_then (dict_get keypoint_trajectories right_hallux_tip) (\<lambda>rt.
     and_then (dict_get keypoint_trajectories left_hallux_tip) (\<lambda>lt.
     and_then (frame_at (trajectory_data (h ! rh)) good_frame) (\<lambda>p_rh.
     and_then (frame_at (trajectory_data (h ! lh)) good_frame) (\<lambda>p_lh.
     and_then (frame_at (trajectory_data (h ! rt)) good_frame) (\<lambda>p_rt.
     and_then (frame_at (trajectory_data (h ! lt)) good_frame) (\<lambda>p_lt.
       Inr (p_rh, p_lh, p_rt, p_lt)))))))))"

definition reference_points ::
  "int \<Rightarrow> KeypointTrajectories \<Rightarrow> heap \<Rightarrow> error + (vec3 \<times> vec3 \<times> vec3 \<times> vec3)" where
  "reference_points good_frame keypoint_trajectories h =
     and_then (original_reference_locations good_frame keypoint_trajectories h)
       (\<lambda>(p_rh, p_lh, p_rt, p_lt).
     let center_reference_point = np_nanmean [p_rh, p_lh, p_rt, p_lt];
         x_forward_reference_point = np_nanmean [p_rt, p_lt];
         y_leftward_reference_point = np_nanmean [p_lt, p_lh]
     in
     and_then (dict_get keypoint_trajectories skull_origin_foramen_magnum) (\<lambda>sk.
     and_then (frame_at (trajectory_data (h ! sk)) good_frame) (\<lambda>z_upward_reference_point.
       Inr (center_reference_point, x_forward_reference_point,
            y_leftward_reference_point, z_upward_reference_point))))"

text \<open>
  \<^verbatim>\<open>
  transformed_trajectories = deepcopy(keypoint_trajectories)
  for key in transformed_trajectories.keys():
      transformed_trajectories[key].trajectory_data = transform_points(
          points=keypoint_trajectories[key].trajectory_data,
          translation_vector=-center_reference_point,
          rotation_matrix=rotation_matrix)
  return transformed_trajectories
  \<close>
  The right-hand side reads the original object, the assignment rebinds the attribute
  of the object the copied dictionary refers to.
\<close>

fun transform_loop ::
  "string list \<Rightarrow> KeypointTrajectories \<Rightarrow> KeypointTrajectories \<Rightarrow> vec3 \<Rightarrow> mat3 \<Rightarrow> heap
     \<Rightarrow> error + heap" where
  "transform_loop [] transformed_trajectories keypoint_trajectories center rotation_matrix h = Inr h"
| "transform_loop (key # keys) transformed_trajectories keypoint_trajectories center rotation_matrix h =
     and_then (dict_get keypoint_trajectories key) (\<lambda>src.
     and_then (dict_get transformed_trajectories key) (\<lambda>dst.
       transform_loop keys transformed_trajectories keypoint_trajectories center rotation_matrix
         (h[dst := (h ! dst)\<lparr>trajectory_data :=
              transform_points (trajectory_data (h ! src)) (vneg center) rotation_matrix\<rparr>])))"

definition put_skeleton_on_ground ::
  "int \<Rightarrow> KeypointTrajectories \<Rightarrow> heap \<Rightarrow> (error + KeypointTrajectories) \<times> heap" where
  "put_skeleton_on_ground good_frame keypoint_trajectories h =
     (case reference_points good_frame keypoint_trajectories h of
        Inl e \<Rightarrow> (Inl e, h)
      | Inr (center_reference_point, x_forward_reference_point,
             y_leftward_reference_point, z_upward_reference_point) \<Rightarrow>
     (case estimate_orthonormal_basis (vector center_reference_point)
             (vector x_forward_reference_point) (vector y_leftward_reference_point)
             (vector z_upward_reference_point) of
        Inl e \<Rightarrow> (Inl e, h)
      | Inr rotation_matrix \<Rightarrow>
     (case run_assertions (basis_assertions rotation_matrix) of
        Inl e \<Rightarrow> (Inl e, h)
      | Inr u \<Rightarrow>
     (case deepcopy keypoint_trajectories h of
        (transformed_trajectories, h1) \<Rightarrow>
     (case transform_loop (map fst transformed_trajectories) transformed_trajectories
             keypoint_trajectories center_reference_point rotation_matrix h1 of
        Inl e \<Rightarrow> (Inl e, h1)
      | Inr h2 \<Rightarrow> (Inr transformed_trajectories, h2))))))"

subsection \<open>An example capture\<close>

text \<open>
  A skeleton standing on the ground (its second frame is the quiet one) with a NaN in
  the first frame of the nose.  Every number in it and every intermediate result of
  the call on it is a small integer, so float64 computes it without rounding.
\<close>

definition standing_heap :: heap where
  "standing_heap =
     [\<lparr>trajectory_name = ''right_heel'', trajectory_data = [fin (0, -1, 1), fin (0, -1, 0)]\<rparr>,
      \<lparr>trajectory_name = ''left_heel'', trajectory_data = [fin (0, 1, 1), fin (0, 1, 0)]\<rparr>,
      \<lparr>trajectory_name = ''right_hallux_tip'', trajectory_data = [fin (2, -1, 1), fin (2, -1, 0)]\<rparr>,
      \<lparr>trajectory_name = ''left_hallux_tip'', trajectory_data = [fin (2, 1, 1), fin (2, 1, 0)]\<rparr>,
      \<lparr>trajectory_name = ''skull_origin_foramen_magnum'',
         trajectory_data = [fin (1, 0, 10), fin (1, 0, 9)]\<rparr>,
      \<lparr>trajectory_name = ''nose'', trajectory_data = [(None, Some 0, Some 9), fin (2, 0, 8)]\<rparr>]"

definition standing_trajectories :: KeypointTrajectories where
  "standing_trajectories =
     [(''right_heel'', 0), (''left_heel'', 1), (''right_hallux_tip'', 2), (''left_hallux_tip'', 3),
      (''skull_origin_foramen_magnum'', 4), (''nose'', 5)]"

section \<open>Structural validation: theorems\<close>

text \<open>
  C7.  A simple rigid body built from two \<^verbatim>\<open>Keypoint\<close> values is rejected exactly when
  parent and child are equal, equality of keypoints being equality of their names; an
  accepted body holds the two keypoints it was given, and they differ.
\<close>

theorem SimpleRigidBodyABC_rejects_iff_equal:
  "((\<exists>e. SimpleRigidBodyABC_post_init (KeypointObj p) (KeypointObj c) = Inl e) \<longleftrightarrow> p = c)
   \<and> ((p = c) \<longleftrightarrow> (name p = name c))
   \<and> (\<forall>b. SimpleRigidBodyABC_post_init (KeypointObj p) (KeypointObj c) = Inr b \<longrightarrow>
          simple_parent b = p \<and> simple_child b = c \<and> simple_parent b \<noteq> simple_child b)"
  by (cases p; cases c) auto

theorem SimpleRigidBodyABC_rejects_iff_equal_witness:
  "(\<exists>e. SimpleRigidBodyABC_post_init (KeypointObj (Keypoint ''hip'')) (KeypointObj (Keypoint ''hip'')) = Inl e)
   \<and> \<not> (\<exists>e. SimpleRigidBodyABC_post_init (KeypointObj (Keypoint ''hip'')) (KeypointObj (Keypoint ''knee'')) = Inl e)
   \<and> SimpleRigidBodyABC_post_init (KeypointObj (Keypoint ''hip'')) (KeypointObj (Keypoint ''knee''))
       = Inr \<lparr>simple_parent = Keypoint ''hip'', simple_child = Keypoint ''knee''\<rparr>"
  using SimpleRigidBodyABC_rejects_iff_equal [of "Keypoint ''hip''" "Keypoint ''hip''"]
        SimpleRigidBodyABC_rejects_iff_equal [of "Keypoint ''hip''" "Keypoint ''knee''"]
  by simp

text \<open>
  C6.  A compound rigid body is accepted exactly when the shared keypoint and the
  positive-x keypoint are among the children, at least one of the two approximate
  y-direction keypoints is given, and each one given is among the children.  Every
  rejection is a \<^verbatim>\<open>ValueError\<close>, and an accepted body holds the fields it was given.
\<close>

theorem CompoundRigidBodyABC_accepts_iff:
  "((\<exists>b. CompoundRigidBodyABC_post_init p cs sk px py ny = Inr b) \<longleftrightarrow>
      sk \<in> set cs \<and> px \<in> set cs \<and> (py \<noteq> None \<or> ny \<noteq> None)
      \<and> (\<forall>k. py = Some k \<longrightarrow> k \<in> set cs) \<and> (\<forall>k. ny = Some k \<longrightarrow> k \<in> set cs))
   \<and> ((\<nexists>b. CompoundRigidBodyABC_post_init p cs sk px py ny = Inr b) \<longleftrightarrow>
        (\<exists>msg. CompoundRigidBodyABC_post_init p cs sk px py ny = Inl (ValueError msg)))
   \<and> (\<forall>b. CompoundRigidBodyABC_post_init p cs sk px py ny = Inr b \<longrightarrow>
          b = \<lparr>compound_parent = p, compound_children = cs, shared_keypoint = sk,
               positive_x_direction = px, approximate_positive_y_direction = py,
               approximate_negative_y_direction = ny\<rparr>)"
  by (cases py; cases ny) (auto simp: list_ex_iff)

theorem CompoundRigidBodyABC_accepts_iff_witness:
  "(\<exists>b. CompoundRigidBodyABC_post_init (Keypoint ''pelvis'')
          [Keypoint ''right_hip'', Keypoint ''left_hip'', Keypoint ''spine'']
          (Keypoint ''spine'') (Keypoint ''right_hip'') None (Some (Keypoint ''left_hip'')) = Inr b)
   \<and> (\<nexists>b. CompoundRigidBodyABC_post_init (Keypoint ''pelvis'')
          [Keypoint ''right_hip'', Keypoint ''left_hip'', Keypoint ''spine'']
          (Keypoint ''spine'') (Keypoint ''right_hip'') None None = Inr b)
   \<and> (\<nexists>b. CompoundRigidBodyABC_post_init (Keypoint ''pelvis'')
          [Keypoint ''right_hip'', Keypoint ''left_hip'', Keypoint ''spine'']
          (Keypoint ''spine'') (Keypoint ''right_hip'') (Some (Keypoint ''nose'')) None = Inr b)"
  using CompoundRigidBodyABC_accepts_iff [of "Keypoint ''pelvis''"
          "[Keypoint ''right_hip'', Keypoint ''left_hip'', Keypoint ''spine'']"
          "Keypoint ''spine''" "Keypoint ''right_hip''" None "Some (Keypoint ''left_hip'')"]
        CompoundRigidBodyABC_accepts_iff [of "Keypoint ''pelvis''"
          "[Keypoint ''right_hip'', Keypoint ''left_hip'', Keypoint ''spine'']"
          "Keypoint ''spine''" "Keypoint ''right_hip''" None None]
        CompoundRigidBodyABC_accepts_iff [of "Keypoint ''pelvis''"
          "[Keypoint ''right_hip'', Keypoint ''left_hip'', Keypoint ''spine'']"
          "Keypoint ''spine''" "Keypoint ''right_hip''" "Some (Keypoint ''nose'')" None]
  by simp

subsection \<open>Linkages\<close>

lemma for_each_Inr_iff: "for_each f xs = Inr () \<longleftrightarrow> (\<forall>x \<in> set xs. f x = Inr ())"
  by (induction xs) (auto split: sum.splits)

lemma check_linked_keypoint_Inr_iff:
  "check_linked_keypoint body k = Inr () \<longleftrightarrow> structural_member k body"
  by (cases body) auto

text \<open>
  When both \<^verbatim>\<open>parent\<close> and \<^verbatim>\<open>children\<close> hold one rigid body each, the loop is the
  membership test on both sides.
\<close>

lemma LinkageABC_post_init_single_child:
  "(\<exists>l. LinkageABC_post_init p c lks = Inr l) \<longleftrightarrow>
     (\<forall>k \<in> set lks. structural_member k p \<and> structural_member k c)"
proof -
  have "(\<exists>l. LinkageABC_post_init p c lks = Inr l) \<longleftrightarrow>
          for_each (\<lambda>body. for_each (check_linked_keypoint body) lks) [p, c] = Inr ()"
    by (cases "for_each (\<lambda>body. for_each (check_linked_keypoint body) lks) [p, c]")
       (simp_all add: LinkageABC_post_init_def)
  also have "\<dots> \<longleftrightarrow> (\<forall>k \<in> set lks. structural_member k p \<and> structural_member k c)"
    unfolding for_each_Inr_iff by (auto simp: check_linked_keypoint_Inr_iff)
  finally show ?thesis .
qed

text \<open>
  With \<^verbatim>\<open>children\<close> a list of bodies, as the field is annotated, the second round of
  the outer loop meets the list object, which is neither kind of rigid body: any
  non-empty \<^verbatim>\<open>linked_keypoints\<close> is rejected, whatever the bodies are.
\<close>

lemma LinkageABC_post_init_children_list:
  assumes "lks \<noteq> []"
  shows "\<exists>msg. LinkageABC_post_init p (ListObj bodies) lks = Inl (ValueError msg)"
proof -
  obtain k ks where lks: "lks = k # ks"
    using assms by (cases lks) auto
  have second: "for_each (check_linked_keypoint (ListObj bodies)) lks
                  = Inl (ValueError ''Body is not a valid rigid body type'')"
    by (simp add: lks)
  show ?thesis
  proof (cases "for_each (check_linked_keypoint p) lks")
    case (Inl e)
    have "\<exists>msg. e = ValueError msg"
      using Inl
    proof (induction lks)
      case Nil
      then show ?case by simp
    next
      case (Cons a as)
      then show ?case
        by (cases p) (auto split: sum.splits if_splits)
    qed
    then show ?thesis
      using Inl by (auto simp: LinkageABC_post_init_def)
  next
    case (Inr u)
    then show ?thesis
      using second by (simp add: LinkageABC_post_init_def)
  qed
qed

text \<open>
  C4.  The knee is the child of the thigh and the parent of the shank, so it is a
  structural member of the parent body and of the only child body; the construction
  is rejected all the same, with the message for an object that is not a rigid body.
\<close>

theorem LinkageABC_rejects_shared_keypoint:
  "LinkageABC_post_init
     (SimpleRigidBodyObj \<lparr>simple_parent = Keypoint ''hip'', simple_child = Keypoint ''knee''\<rparr>)
     (ListObj [SimpleRigidBodyObj \<lparr>simple_parent = Keypoint ''knee'', simple_child = Keypoint ''ankle''\<rparr>])
     [Keypoint ''knee'']
   = Inl (ValueError ''Body is not a valid rigid body type'')
   \<and> structural_member (Keypoint ''knee'')
       (SimpleRigidBodyObj \<lparr>simple_parent = Keypoint ''hip'', simple_child = Keypoint ''knee''\<rparr>)
   \<and> structural_member (Keypoint ''knee'')
       (SimpleRigidBodyObj \<lparr>simple_parent = Keypoint ''knee'', simple_child = Keypoint ''ankle''\<rparr>)"
  by (simp add: LinkageABC_post_init_def)

subsection \<open>Chains\<close>

text \<open>The hook itself tests what the invariant of a chain asks for.\<close>

lemma ChainABC_post_init_Inr_iff:
  "ChainABC_post_init self = Inr () \<longleftrightarrow>
     (\<forall>body \<in> set (shared_bodies self). \<exists>linkage \<in> set (chain_children self).
         body = linkage_parent linkage)"
  by (auto simp: ChainABC_post_init_def for_each_Inr_iff list_ex_iff split: if_splits)

text \<open>
  C8.  A chain that declares the thigh as a shared body and has no child linkage at all
  violates the invariant, and the hook would reject it; instantiation returns the chain
  regardless, because the hook is never run.
\<close>

theorem ChainABC_construct_skips_validation:
  "ChainABC_post_init
     \<lparr>chain_parent = \<lparr>linkage_parent = NoneObj, linkage_children = NoneObj, linked_keypoints = []\<rparr>,
      chain_children = [],
      shared_bodies = [SimpleRigidBodyObj \<lparr>simple_parent = Keypoint ''hip'', simple_child = Keypoint ''knee''\<rparr>]\<rparr>
     = Inl (ValueError ''Shared body not found in children'')
   \<and> ChainABC_construct
     \<lparr>chain_parent = \<lparr>linkage_parent = NoneObj, linkage_children = NoneObj, linked_keypoints = []\<rparr>,
      chain_children = [],
      shared_bodies = [SimpleRigidBodyObj \<lparr>simple_parent = Keypoint ''hip'', simple_child = Keypoint ''knee''\<rparr>]\<rparr>
     []
     = Inr \<lparr>chain_parent = \<lparr>linkage_parent = NoneObj, linkage_children = NoneObj, linked_keypoints = []\<rparr>,
      chain_children = [],
      shared_bodies = [SimpleRigidBodyObj \<lparr>simple_parent = Keypoint ''hip'', simple_child = Keypoint ''knee''\<rparr>]\<rparr>"
  by (simp add: ChainABC_post_init_def ChainABC_construct_def)

section \<open>Keypoint mapping: theorems\<close>

text \<open>
  C5.  The constructor stores \<^verbatim>\<open>mapping\<close> and \<^verbatim>\<open>weights\<close>; the first statement of the
  hook reads \<^verbatim>\<open>self.source_keypoints\<close>, which no instance has.  Every construction,
  the one with weights 0.3 and 0.7 among them, ends in an \<^verbatim>\<open>AttributeError\<close> before any
  weight is looked at.
\<close>

theorem KeypointMapping_always_AttributeError:
  "KeypointMapping mapping weights = Inl (AttributeError ''source_keypoints'')
   \<and> KeypointMapping (ListVal [StrVal ''left_hip'', StrVal ''right_hip''])
        (ListVal [FloatVal (3/10), FloatVal (7/10)]) = Inl (AttributeError ''source_keypoints'')"
  by (simp add: KeypointMapping_def KeypointMapping_post_init_def split_dict_mapping_def getattr_def)

section \<open>The ground frame: theorems\<close>

subsection \<open>estimate\_orthonormal\_basis\<close>

text \<open>
  C10.  When one of the four arguments does not have shape \<^verbatim>\<open>(3,)\<close> the function
  raises the \<^verbatim>\<open>ValueError\<close>, whatever the arrays hold; a basis is returned exactly for
  four arrays of shape \<^verbatim>\<open>(3,)\<close>.
\<close>

theorem estimate_orthonormal_basis_shape_check:
  "(shape c \<noteq> [3] \<or> shape xf \<noteq> [3] \<or> shape yl \<noteq> [3] \<or> shape zu \<noteq> [3] \<longrightarrow>
      estimate_orthonormal_basis c xf yl zu = Inl (ValueError ''All reference points must be 3D vectors.''))
   \<and> ((\<exists>basis. estimate_orthonormal_basis c xf yl zu = Inr basis) \<longleftrightarrow>
        shape c = [3] \<and> shape xf = [3] \<and> shape yl = [3] \<and> shape zu = [3])"
  by (simp add: estimate_orthonormal_basis_def Let_def del: split_paired_Ex)

theorem estimate_orthonormal_basis_shape_check_witness:
  "estimate_orthonormal_basis (NDArray [3] [Some 0, Some 0, Some 0]) (NDArray [3] [Some 1, Some 0, Some 0])
      (NDArray [2] [Some 0, Some 1]) (NDArray [3] [Some 0, Some 0, Some 1])
     = Inl (ValueError ''All reference points must be 3D vectors.'')
   \<and> estimate_orthonormal_basis (NDArray [3, 1] [Some 0, Some 0, Some 0]) (NDArray [3] [Some 1, Some 0, Some 0])
      (NDArray [3] [Some 0, Some 1, Some 0]) (NDArray [3] [Some 0, Some 0, Some 1])
     = Inl (ValueError ''All reference points must be 3D vectors.'')"
  using estimate_orthonormal_basis_shape_check [of "NDArray [3] [Some 0, Some 0, Some 0]"
          "NDArray [3] [Some 1, Some 0, Some 0]" "NDArray [2] [Some 0, Some 1]"
          "NDArray [3] [Some 0, Some 0, Some 1]"]
        estimate_orthonormal_basis_shape_check [of "NDArray [3, 1] [Some 0, Some 0, Some 0]"
          "NDArray [3] [Some 1, Some 0, Some 0]" "NDArray [3] [Some 0, Some 1, Some 0]"
          "NDArray [3] [Some 0, Some 0, Some 1]"]
  by simp

subsection \<open>The store: what deepcopy and the loop write\<close>

lemma deepcopy_items_fresh:
  assumes "deepcopy_items items memo h = (items', memo', h')"
  shows "(\<exists>ext. h' = h @ ext)
       \<and> snd ` set items' \<subseteq> snd ` set memo \<union> {length h ..< length h'}
       \<and> snd ` set memo' \<subseteq> snd ` set memo \<union> {length h ..< length h'}"
  using assms
proof (induction items arbitrary: memo h items' memo' h')
  case Nil
  then show ?case by auto
next
  case (Cons item items)
  obtain key a where item: "item = (key, a)" by (cases item)
  show ?case
  proof (cases "map_of memo a")
    case None
    obtain its m2 h2 where rec: "deepcopy_items items ((a, length h) # memo) (h @ [h ! a]) = (its, m2, h2)"
      by (cases "deepcopy_items items ((a, length h) # memo) (h @ [h ! a])") auto
    from Cons.prems have res: "items' = (key, length h) # its" "memo' = m2" "h' = h2"
      by (simp_all add: item None rec)
    from Cons.IH [OF rec] obtain ext where
      ext: "h2 = (h @ [h ! a]) @ ext" and
      its: "snd ` set its \<subseteq> snd ` set ((a, length h) # memo) \<union> {length (h @ [h ! a]) ..< length h2}" and
      m2: "snd ` set m2 \<subseteq> snd ` set ((a, length h) # memo) \<union> {length (h @ [h ! a]) ..< length h2}"
      by blast
    have len: "length h < length h2"
      by (simp add: ext)
    show ?thesis
      unfolding res using ext its m2 len by (auto simp: subset_iff)
  next
    case (Some a')
    obtain its m2 h2 where rec: "deepcopy_items items memo h = (its, m2, h2)"
      by (cases "deepcopy_items items memo h") auto
    from Cons.prems have res: "items' = (key, a') # its" "memo' = m2" "h' = h2"
      by (simp_all add: item Some rec)
    have "a' \<in> snd ` set memo"
      using map_of_SomeD [OF Some] by force
    then show ?thesis
      unfolding res using Cons.IH [OF rec] by auto
  qed
qed

lemma deepcopy_fresh:
  assumes "deepcopy kt h = (kt', h1)"
  shows "(\<exists>ext. h1 = h @ ext) \<and> snd ` set kt' \<subseteq> {length h ..< length h1}"
proof -
  obtain memo' where "deepcopy_items kt [] h = (kt', memo', h1)"
    using assms by (auto simp: deepcopy_def split: prod.splits)
  from deepcopy_items_fresh [OF this] show ?thesis
    by auto
qed

lemma dict_get_Inr_in_set:
  "dict_get d key = Inr v \<Longrightarrow> v \<in> snd ` set d"
  by (auto simp: dict_get_def split: option.splits dest!: map_of_SomeD intro: rev_image_eqI)

lemma and_then_Inr_iff: "and_then m f = Inr y \<longleftrightarrow> (\<exists>x. m = Inr x \<and> f x = Inr y)"
  by (cases m) auto

lemma transform_loop_frame:
  assumes "transform_loop keys kt' kt c R h = Inr h2"
  shows "length h2 = length h \<and> (\<forall>i. i \<notin> snd ` set kt' \<longrightarrow> h2 ! i = h ! i)"
  using assms
proof (induction keys arbitrary: h)
  case Nil
  then show ?case by simp
next
  case (Cons key keys)
  from Cons.prems obtain src dst where
    src: "dict_get kt key = Inr src" and dst: "dict_get kt' key = Inr dst" and
    rec: "transform_loop keys kt' kt c R
            (h[dst := (h ! dst)\<lparr>trajectory_data :=
                 transform_points (trajectory_data (h ! src)) (vneg c) R\<rparr>]) = Inr h2"
    by (auto simp: and_then_Inr_iff)
  have mem: "dst \<in> snd ` set kt'"
    using dst by (rule dict_get_Inr_in_set)
  from Cons.IH [OF rec] have
    len: "length h2 = length h" and
    same: "\<And>i. i \<notin> snd ` set kt' \<Longrightarrow> h2 ! i =
       h[dst := (h ! dst)\<lparr>trajectory_data :=
                 transform_points (trajectory_data (h ! src)) (vneg c) R\<rparr>] ! i"
    by auto
  show ?case
  proof (intro conjI allI impI)
    show "length h2 = length h" by (rule len)
  next
    fix i assume i: "i \<notin> snd ` set kt'"
    then have "i \<noteq> dst"
      using mem by blast
    then show "h2 ! i = h ! i"
      using same [OF i] by simp
  qed
qed

lemma put_skeleton_on_ground_cases:
  obtains (error) e where "put_skeleton_on_ground good_frame kt h = (Inl e, h)"
  | (loop_error) e kt' h1 where "put_skeleton_on_ground good_frame kt h = (Inl e, h1)"
      "deepcopy kt h = (kt', h1)"
  | (ok) kt' h1 h2 c R where "put_skeleton_on_ground good_frame kt h = (Inr kt', h2)"
      "deepcopy kt h = (kt', h1)"
      "transform_loop (map fst kt') kt' kt c R h1 = Inr h2"
proof (cases "reference_points good_frame kt h")
  case (Inl e)
  then show ?thesis
    using error by (simp add: put_skeleton_on_ground_def)
next
  case (Inr refs)
  obtain c xf yl zu where refs: "refs = (c, xf, yl, zu)"
    by (cases refs)
  show ?thesis
  proof (cases "estimate_orthonormal_basis (vector c) (vector xf) (vector yl) (vector zu)")
    case (Inl e)
    then show ?thesis
      using error Inr refs by (simp add: put_skeleton_on_ground_def)
  next
    case R: (Inr R)
    show ?thesis
    proof (cases "run_assertions (basis_assertions R)")
      case (Inl e)
      then show ?thesis
        using error Inr refs R by (simp add: put_skeleton_on_ground_def)
    next
      case A: (Inr u)
      obtain kt' h1 where dc: "deepcopy kt h = (kt', h1)"
        by (cases "deepcopy kt h")
      show ?thesis
      proof (cases "transform_loop (map fst kt') kt' kt c R h1")
        case (Inl e)
        then have "put_skeleton_on_ground good_frame kt h = (Inl e, h1)"
          using Inr refs R A dc by (simp add: put_skeleton_on_ground_def)
        then show ?thesis
          using loop_error dc by blast
      next
        case L: (Inr h2)
        then have "put_skeleton_on_ground good_frame kt h = (Inr kt', h2)"
          using Inr refs R A dc by (simp add: put_skeleton_on_ground_def)
        then show ?thesis
          using ok dc L by blast
      qed
    qed
  qed
qed

text \<open>The example capture, evaluated.\<close>

lemmas key_defs = right_heel_def left_heel_def right_hallux_tip_def left_hallux_tip_def
  skull_origin_foramen_magnum_def

lemma standing_reference_points:
  "reference_points 1 standing_trajectories standing_heap
     = Inr (fin (1, 0, 0), fin (2, 0, 0), fin (1, 1, 0), fin (1, 0, 9))"
  by (simp add: reference_points_def original_reference_locations_def
        standing_trajectories_def standing_heap_def key_defs
        dict_get_def frame_at_def np_nanmean_def nanmean_def)

lemma standing_basis:
  "estimate_orthonormal_basis (vector (fin (1, 0, 0))) (vector (fin (2, 0, 0)))
      (vector (fin (1, 1, 0))) (vector (fin (1, 0, 9)))
   = Inr (fin (1, 0, 0), fin (0, 1, 0), fin (0, 0, 1))"
  by (simp add: estimate_orthonormal_basis_def components_def orthogonalize_def np_linalg_norm_def)

lemma standing_deepcopy:
  "deepcopy standing_trajectories standing_heap
     = ([(''right_heel'', 6), (''left_heel'', 7), (''right_hallux_tip'', 8), (''left_hallux_tip'', 9),
      (''skull_origin_foramen_magnum'', 10), (''nose'', 11)], standing_heap @ standing_heap)"
  by (simp add: deepcopy_def standing_trajectories_def standing_heap_def)

lemma standing_assertions:
  "run_assertions (basis_assertions (fin (1, 0, 0), fin (0, 1, 0), fin (0, 0, 1))) = Inr ()"
  by (simp add: basis_assertions_def np_linalg_norm_def atol_def rtol_def)

lemma standing_put_skeleton_on_ground:
  "put_skeleton_on_ground 1 standing_trajectories standing_heap
     = (Inr [(''right_heel'', 6), (''left_heel'', 7), (''right_hallux_tip'', 8), (''left_hallux_tip'', 9),
             (''skull_origin_foramen_magnum'', 10), (''nose'', 11)],
        standing_heap @
        [\<lparr>trajectory_name = ''right_heel'', trajectory_data = [fin (-1, -1, 1), fin (-1, -1, 0)]\<rparr>,
         \<lparr>trajectory_name = ''left_heel'', trajectory_data = [fin (-1, 1, 1), fin (-1, 1, 0)]\<rparr>,
         \<lparr>trajectory_name = ''right_hallux_tip'', trajectory_data = [fin (1, -1, 1), fin (1, -1, 0)]\<rparr>,
         \<lparr>trajectory_name = ''left_hallux_tip'', trajectory_data = [fin (1, 1, 1), fin (1, 1, 0)]\<rparr>,
         \<lparr>trajectory_name = ''skull_origin_foramen_magnum'',
            trajectory_data = [fin (0, 0, 10), fin (0, 0, 9)]\<rparr>,
         \<lparr>trajectory_name = ''nose'', trajectory_data = [(None, None, None), fin (1, 0, 8)]\<rparr>])"
  unfolding put_skeleton_on_ground_def standing_reference_points
  by (simp add: standing_basis [simplified] standing_assertions [simplified] standing_deepcopy)
     (simp add: standing_heap_def dict_get_def standing_trajectories_def transform_points_def
        translate_points_def rotate_points_def)

subsection \<open>put\_skeleton\_on\_ground: the store\<close>

text \<open>
  C9.  Whatever the input and however the call ends, the objects that existed before
  the call are the same afterwards: the store after the call is the store before it
  followed by newly allocated objects.  The dictionary returned refers to new objects
  only.
\<close>

theorem put_skeleton_on_ground_input_unchanged:
  "take (length h) (snd (put_skeleton_on_ground good_frame kt h)) = h
   \<and> (case fst (put_skeleton_on_ground good_frame kt h) of
         Inl e \<Rightarrow> True
       | Inr transformed \<Rightarrow> list_all (\<lambda>(key, a). length h \<le> a) transformed)"
proof (cases rule: put_skeleton_on_ground_cases [of good_frame kt h])
  case (error e)
  then show ?thesis by simp
next
  case (loop_error e kt' h1)
  then show ?thesis
    using deepcopy_fresh [OF loop_error(2)] by auto
next
  case (ok kt' h1 h2 c R)
  from deepcopy_fresh [OF ok(2)] obtain ext where
    ext: "h1 = h @ ext" and fresh: "snd ` set kt' \<subseteq> {length h ..< length h1}"
    by blast
  from transform_loop_frame [OF ok(3)] have
    len: "length h2 = length h1" and same: "\<And>i. i \<notin> snd ` set kt' \<Longrightarrow> h2 ! i = h1 ! i"
    by auto
  have "take (length h) h2 = h"
  proof (rule nth_equalityI)
    show "length (take (length h) h2) = length h"
      by (simp add: len ext)
  next
    fix i assume "i < length (take (length h) h2)"
    then have i: "i < length h"
      by simp
    then have "i \<notin> snd ` set kt'"
      using fresh by auto
    then have "h2 ! i = h1 ! i"
      by (rule same)
    then show "take (length h) h2 ! i = h ! i"
      using i by (simp add: ext nth_append)
  qed
  moreover have "list_all (\<lambda>(key, a). length h \<le> a) kt'"
    using fresh by (auto simp: list_all_iff)
  ultimately show ?thesis
    by (simp add: ok(1))
qed

theorem put_skeleton_on_ground_input_unchanged_witness:
  "take (length standing_heap) (snd (put_skeleton_on_ground 1 standing_trajectories standing_heap))
     = standing_heap
   \<and> length standing_heap = 6
   \<and> length (snd (put_skeleton_on_ground 1 standing_trajectories standing_heap)) = 12"
  using put_skeleton_on_ground_input_unchanged [of standing_heap 1 standing_trajectories]
  by (simp add: standing_put_skeleton_on_ground) (simp add: standing_heap_def)

end
